theory Spec2Isabelle
  imports Complex_Main "HOL-Library.Char_ord" "HOL-Library.List_Lexorder"
begin

section \<open>The AERAS backend: data model\<close>

text \<open>
  The backend (\<^verbatim>\<open>src/aeras-backend/server.js\<close>) is an Express application over one
  SQLite database. Each table of the schema is modelled by a record of its columns and the
  database by a record of its tables. A handler is a function from the request's fields and
  the database to a response and the new database; the statements a handler issues are
  applied one after the other, in the order in which the handler issues them.

  Conventions of the model:
  \<^item> a JavaScript number is a \<open>real\<close> (coordinates, distances) or an \<open>int\<close> (points);
    floating-point rounding, \<^verbatim>\<open>NaN\<close> and the infinities are not modelled;
  \<^item> a nullable column is an \<open>option\<close>;
  \<^item> a \<^verbatim>\<open>DATETIME\<close> column holds the text that \<^verbatim>\<open>CURRENT_TIMESTAMP\<close> produced;
    SQLite compares such texts bytewise, which is the lexicographic order on \<open>string\<close>.
    The clock is not part of the database: every handler that writes
    \<^verbatim>\<open>CURRENT_TIMESTAMP\<close> takes the current time \<open>now\<close> as an argument;
  \<^item> the free-text column \<^verbatim>\<open>notes\<close> of \<^verbatim>\<open>points_history\<close> and the table
    \<^verbatim>\<open>users\<close> (which no handler modelled here reads or writes) are left out;
  \<^item> the \<^verbatim>\<open>err\<close> branches of the callbacks (a failure of the storage engine, answered
    with status 500) are left out;
  \<^item> foreign keys are declared in the schema but SQLite does not enforce them unless
    \<^verbatim>\<open>PRAGMA foreign_keys\<close> is switched on, which the server never does; the
    \<^verbatim>\<open>NOT NULL\<close> constraints are enforced.
\<close>

datatype ride_status = PENDING | ACCEPTED | PICKUP | COMPLETED | TIMEOUT | PENDING_REVIEW | CANCELLED

datatype rickshaw_status = AVAILABLE | ON_RIDE | OFFLINE

datatype transaction_type = EARNED | SPENT | ADJUSTED | EXPIRED

type_synonym timestamp = string

record rickshaw =
  pullerName :: string
  phoneNumber :: "string option"
  currentLat :: real
  currentLng :: real
  isOnline :: bool
  totalPoints :: int
  rickshaw_status :: rickshaw_status
  lastUpdated :: timestamp

record ride =
  userID :: string
  rickshawID :: "string option"
  pickupBlock :: string
  destination :: string
  requestTime :: timestamp
  acceptTime :: "timestamp option"
  pickupTime :: "timestamp option"
  dropTime :: "timestamp option"
  status :: ride_status
  dropLat :: "real option"
  dropLng :: "real option"
  dropDistance :: "real option"
  pointsAwarded :: int

record location =
  locationName :: string
  latitude :: real
  longitude :: real

record points_row =
  historyID :: nat
  h_rickshawID :: string
  h_rideID :: "nat option"
  pointsEarned :: int
  pointsSpent :: int
  transactionType :: transaction_type
  transactionDate :: timestamp

text \<open>
  \<open>rides_seq\<close> is the largest \<^verbatim>\<open>rideID\<close> handed out so far (the
  \<^verbatim>\<open>AUTOINCREMENT\<close> counter of the table), so that ride identities start at 1.
\<close>

record db =
  rickshaws :: "string \<rightharpoonup> rickshaw"
  rides :: "nat \<rightharpoonup> ride"
  rides_seq :: nat
  locations :: "string \<rightharpoonup> location"
  points_history :: "points_row list"

text \<open>
  A failure response: the HTTP status and the \<^verbatim>\<open>error\<close> text of the JSON body.
\<close>

datatype error = HttpError nat string

section \<open>Helper functions\<close>

text \<open>
  \<^verbatim>\<open>Math.atan2(y, x)\<close> on the reals.
\<close>

definition atan2 :: "real \<Rightarrow> real \<Rightarrow> real" where
  "atan2 y x =
     (if 0 < x then arctan (y / x)
      else if x < 0 then (if 0 \<le> y then arctan (y / x) + pi else arctan (y / x) - pi)
      else if 0 < y then pi / 2
      else if y < 0 then - (pi / 2)
      else 0)"

definition calculateDistance :: "real \<Rightarrow> real \<Rightarrow> real \<Rightarrow> real \<Rightarrow> real" where
  "calculateDistance lat1 lon1 lat2 lon2 =
     (let R = 6371000;
          phi1 = lat1 * pi / 180;
          phi2 = lat2 * pi / 180;
          dphi = (lat2 - lat1) * pi / 180;
          dlambda = (lon2 - lon1) * pi / 180;
          a = sin (dphi / 2) * sin (dphi / 2) +
              cos phi1 * cos phi2 * sin (dlambda / 2) * sin (dlambda / 2);
          c = 2 * atan2 (sqrt a) (sqrt (1 - a))
      in R * c)"

definition calculatePoints :: "real \<Rightarrow> int" where
  "calculatePoints distanceMeters =
     (let basePoints = 10 in
      if distanceMeters \<le> 0 then 10
      else if distanceMeters \<le> 50 then
        (let penalty = \<lfloor>distanceMeters / 10\<rfloor> in max (basePoints - penalty) 8)
      else if distanceMeters \<le> 100 then 5
      else 0)"

text \<open>
  \<^verbatim>\<open>x.toFixed(2)\<close>: the decimal with two fractional digits nearest to \<open>x\<close>; of two
  equally near ones the larger for \<open>x \<ge> 0\<close>, and the mirror image for \<open>x < 0\<close>. The
  model keeps the number this text denotes.
\<close>

definition toFixed2 :: "real \<Rightarrow> real" where
  "toFixed2 x =
     (if x < 0 then - (of_int \<lfloor>(- x) * 100 + 1 / 2\<rfloor> / 100)
      else of_int \<lfloor>x * 100 + 1 / 2\<rfloor> / 100)"

section \<open>SQL statements\<close>

text \<open>
  \<^verbatim>\<open>UPDATE rides SET ... WHERE rideID = ? AND ...\<close>: at most one row has the given
  primary key; the result carries \<^verbatim>\<open>this.changes\<close>.
\<close>

definition update_rides :: "nat \<Rightarrow> (ride \<Rightarrow> bool) \<Rightarrow> (ride \<Rightarrow> ride) \<Rightarrow> db \<Rightarrow> nat \<times> db" where
  "update_rides rideID cond f s =
     (case rides s rideID of
        None \<Rightarrow> (0, s)
      | Some r \<Rightarrow> if cond r then (1, s\<lparr>rides := (rides s)(rideID \<mapsto> f r)\<rparr>) else (0, s))"

text \<open>
  \<^verbatim>\<open>UPDATE rickshaws SET ... WHERE rickshawID = ?\<close>. The parameter is the
  \<^verbatim>\<open>rickshawID\<close> of a ride in some handlers and may then be \<^verbatim>\<open>NULL\<close>, which
  equals no key.
\<close>

definition update_rickshaws :: "string option \<Rightarrow> (rickshaw \<Rightarrow> rickshaw) \<Rightarrow> db \<Rightarrow> db" where
  "update_rickshaws key f s =
     (case key of
        None \<Rightarrow> s
      | Some k \<Rightarrow>
          (case rickshaws s k of
             None \<Rightarrow> s
           | Some r \<Rightarrow> s\<lparr>rickshaws := (rickshaws s)(k \<mapsto> f r)\<rparr>))"

text \<open>
  \<^verbatim>\<open>INSERT INTO points_history (...) VALUES (...)\<close>. The new \<^verbatim>\<open>historyID\<close> is one
  more than the largest in the table (rows are never deleted). A \<^verbatim>\<open>NULL\<close>
  \<^verbatim>\<open>rickshawID\<close> violates \<^verbatim>\<open>NOT NULL\<close>: the statement fails and inserts nothing. The
  handlers pass no callback to this statement; what the runtime does with the unobserved
  failure is outside the model.
\<close>

definition insert_history ::
  "string option \<Rightarrow> nat option \<Rightarrow> int \<Rightarrow> int \<Rightarrow> transaction_type \<Rightarrow> timestamp \<Rightarrow> db \<Rightarrow> db" where
  "insert_history key rideID earned spent ty now s =
     (case key of
        None \<Rightarrow> s
      | Some k \<Rightarrow>
          s\<lparr>points_history := points_history s @
            [\<lparr>historyID = Suc (fold max (map historyID (points_history s)) 0),
              h_rickshawID = k, h_rideID = rideID,
              pointsEarned = earned, pointsSpent = spent,
              transactionType = ty, transactionDate = now\<rparr>]\<rparr>)"

section \<open>Ride lifecycle handlers\<close>

text \<open>
  In a request body a field that is missing, \<^verbatim>\<open>0\<close> or \<^verbatim>\<open>""\<close> is falsy, and the
  handlers test \<^verbatim>\<open>!field\<close>: a ride identity is a \<open>nat\<close> with 0 for the falsy values,
  a rickshaw identity a \<open>string\<close> with the empty string for them, an amount of points an
  \<open>int\<close> with 0 for them. A field tested with \<^verbatim>\<open>=== undefined\<close> is an \<open>option\<close>.
\<close>

text \<open>\<^verbatim>\<open>POST /api/ride/request\<close>; \<^verbatim>\<open>userID\<close> defaults to \<^verbatim>\<open>'GUEST'\<close>.\<close>

definition request_ride ::
  "string \<Rightarrow> string \<Rightarrow> string option \<Rightarrow> timestamp \<Rightarrow> db \<Rightarrow> (error + nat) \<times> db" where
  "request_ride blockID dest user now s =
     (if blockID = [] \<or> dest = [] then (Inl (HttpError 400 ''Missing required fields''), s)
      else
        let rideID = Suc (rides_seq s);
            row = \<lparr>userID = (case user of None \<Rightarrow> ''GUEST'' | Some u \<Rightarrow> u),
                   rickshawID = None, pickupBlock = blockID, destination = dest,
                   requestTime = now, acceptTime = None, pickupTime = None, dropTime = None,
                   status = PENDING, dropLat = None, dropLng = None, dropDistance = None,
                   pointsAwarded = 0\<rparr>
        in (Inr rideID, s\<lparr>rides := (rides s)(rideID \<mapsto> row), rides_seq := rideID\<rparr>))"

text \<open>
  The watchdog that \<^verbatim>\<open>request_ride\<close> arms with \<^verbatim>\<open>setTimeout\<close>. When it fires it
  reads the status of the ride, and in the callback of that read it writes
  \<^verbatim>\<open>TIMEOUT\<close> with an update whose only condition is the ride identity. Other
  handlers may run between the read and the write, so the watchdog takes the database at
  the read and the database at the write.
\<close>

definition watchdog :: "nat \<Rightarrow> db \<Rightarrow> db \<Rightarrow> db" where
  "watchdog rideID s_read s_write =
     (case rides s_read rideID of
        None \<Rightarrow> s_write
      | Some row \<Rightarrow>
          if status row = PENDING
          then snd (update_rides rideID (\<lambda>r. True) (\<lambda>r. r\<lparr>status := TIMEOUT\<rparr>) s_write)
          else s_write)"

text \<open>
  \<^verbatim>\<open>POST /api/ride/accept\<close>. The statements run between \<^verbatim>\<open>BEGIN TRANSACTION\<close> and
  \<^verbatim>\<open>COMMIT\<close> or \<^verbatim>\<open>ROLLBACK\<close>; after a rollback the database is the one the handler
  started from. A success carries the ride identity, pickup block and destination,
  a refusal (\<^verbatim>\<open>success: false\<close>) its message.
\<close>

datatype accept_response = AcceptSuccess nat string string | AcceptFailure string

definition accept_ride ::
  "nat \<Rightarrow> string \<Rightarrow> timestamp \<Rightarrow> db \<Rightarrow> (error + accept_response) \<times> db" where
  "accept_ride rideID rickID now s =
     (if rideID = 0 \<or> rickID = [] then (Inl (HttpError 400 ''Missing fields''), s)
      else
        case rides s rideID of
          None \<Rightarrow> (Inr (AcceptFailure ''Ride already taken by another puller''), s)
        | Some ride \<Rightarrow>
            if status ride \<noteq> PENDING
            then (Inr (AcceptFailure ''Ride already taken by another puller''), s)
            else
              let (changes, s1) =
                    update_rides rideID (\<lambda>r. status r = PENDING)
                      (\<lambda>r. r\<lparr>status := ACCEPTED, rickshawID := Some rickID,
                              acceptTime := Some now\<rparr>) s
              in if changes = 0 then (Inr (AcceptFailure ''Race condition''), s)
                 else
                   let s2 = update_rickshaws (Some rickID)
                              (\<lambda>r. r\<lparr>rickshaw_status := ON_RIDE\<rparr>) s1
                   in (Inr (AcceptSuccess rideID (pickupBlock ride) (destination ride)), s2))"

text \<open>\<^verbatim>\<open>POST /api/ride/pickup\<close>\<close>

definition confirm_pickup :: "nat \<Rightarrow> timestamp \<Rightarrow> db \<Rightarrow> (error + unit) \<times> db" where
  "confirm_pickup rideID now s =
     (if rideID = 0 then (Inl (HttpError 400 ''rideID required''), s)
      else
        let (changes, s1) =
              update_rides rideID (\<lambda>r. status r = ACCEPTED)
                (\<lambda>r. r\<lparr>status := PICKUP, pickupTime := Some now\<rparr>) s
        in if changes = 0 then (Inl (HttpError 400 ''Ride not in accepted state''), s1)
           else (Inr (), s1))"

text \<open>
  \<^verbatim>\<open>POST /api/ride/complete\<close>. The ride is read joined with the location of its
  destination; the update of the ride has no condition besides the ride identity.
\<close>

record complete_response =
  resp_points :: int
  resp_distance :: real
  resp_status :: ride_status

definition complete_ride ::
  "nat \<Rightarrow> real option \<Rightarrow> real option \<Rightarrow> timestamp \<Rightarrow> db \<Rightarrow> (error + complete_response) \<times> db" where
  "complete_ride rideID lat_field lng_field now s =
     (case (lat_field, lng_field) of
        (Some lat, Some lng) \<Rightarrow>
          if rideID = 0 then (Inl (HttpError 400 ''Missing fields''), s)
          else
            (case rides s rideID of
               None \<Rightarrow> (Inl (HttpError 404 ''Ride not found''), s)
             | Some ride \<Rightarrow>
                 (case locations s (destination ride) of
                    None \<Rightarrow> (Inl (HttpError 404 ''Ride not found''), s)
                  | Some dest \<Rightarrow>
                      let distanceFromDest =
                            calculateDistance lat lng (latitude dest) (longitude dest);
                          points = calculatePoints distanceFromDest;
                          st = (if distanceFromDest \<le> 100 then COMPLETED else PENDING_REVIEW);
                          s1 = snd (update_rides rideID (\<lambda>r. True)
                                 (\<lambda>r. r\<lparr>status := st, dropTime := Some now,
                                         dropLat := Some lat, dropLng := Some lng,
                                         dropDistance := Some distanceFromDest,
                                         pointsAwarded := points\<rparr>) s);
                          s2 = (if points > 0
                                then insert_history (rickshawID ride) (Some rideID) points 0
                                       EARNED now
                                       (update_rickshaws (rickshawID ride)
                                          (\<lambda>r. r\<lparr>totalPoints := totalPoints r + points,
                                                  rickshaw_status := AVAILABLE\<rparr>) s1)
                                else update_rickshaws (rickshawID ride)
                                       (\<lambda>r. r\<lparr>rickshaw_status := AVAILABLE\<rparr>) s1)
                      in (Inr \<lparr>resp_points = points,
                               resp_distance = toFixed2 distanceFromDest,
                               resp_status = st\<rparr>, s2)))
      | _ \<Rightarrow> (Inl (HttpError 400 ''Missing fields''), s))"

text \<open>\<^verbatim>\<open>POST /api/ride/cancel\<close>\<close>

definition cancel_ride :: "nat \<Rightarrow> string \<Rightarrow> db \<Rightarrow> (error + unit) \<times> db" where
  "cancel_ride rideID rickID s =
     (if rideID = 0 \<or> rickID = [] then (Inl (HttpError 400 ''Missing fields''), s)
      else
        let (changes, s1) =
              update_rides rideID
                (\<lambda>r. rickshawID r = Some rickID \<and> status r \<in> {ACCEPTED, PICKUP})
                (\<lambda>r. r\<lparr>status := PENDING, rickshawID := None, acceptTime := None\<rparr>) s
        in if changes = 0 then (Inl (HttpError 400 ''Cannot cancel ride''), s1)
           else (Inr (), update_rickshaws (Some rickID)
                           (\<lambda>r. r\<lparr>rickshaw_status := AVAILABLE\<rparr>) s1))"

section \<open>Points handlers\<close>

text \<open>
  \<^verbatim>\<open>POST /api/points/redeem\<close>. The reward type only enters the note and is echoed in
  the response; the model returns \<^verbatim>\<open>newBalance\<close>.
\<close>

definition redeem_points :: "string \<Rightarrow> int \<Rightarrow> timestamp \<Rightarrow> db \<Rightarrow> (error + int) \<times> db" where
  "redeem_points rickID points now s =
     (if rickID = [] \<or> points = 0 then (Inl (HttpError 400 ''Missing fields''), s)
      else
        case rickshaws s rickID of
          None \<Rightarrow> (Inl (HttpError 404 ''Rickshaw not found''), s)
        | Some row \<Rightarrow>
            if totalPoints row < points then (Inl (HttpError 400 ''Insufficient points''), s)
            else
              let s1 = update_rickshaws (Some rickID)
                         (\<lambda>r. r\<lparr>totalPoints := totalPoints r - points\<rparr>) s;
                  s2 = insert_history (Some rickID) None 0 points SPENT now s1
              in (Inr (totalPoints row - points), s2))"

text \<open>\<^verbatim>\<open>POST /api/admin/adjust-points\<close>; the response carries \<^verbatim>\<open>pointDiff\<close>.\<close>

definition adjust_points :: "nat \<Rightarrow> int option \<Rightarrow> timestamp \<Rightarrow> db \<Rightarrow> (error + int) \<times> db" where
  "adjust_points rideID newPoints_field now s =
     (case newPoints_field of
        None \<Rightarrow> (Inl (HttpError 400 ''Missing fields''), s)
      | Some newPoints \<Rightarrow>
          if rideID = 0 then (Inl (HttpError 400 ''Missing fields''), s)
          else
            (case rides s rideID of
               None \<Rightarrow> (Inl (HttpError 404 ''Ride not found''), s)
             | Some ride \<Rightarrow>
                 let pointDiff = newPoints - pointsAwarded ride;
                     s1 = snd (update_rides rideID (\<lambda>r. True)
                            (\<lambda>r. r\<lparr>pointsAwarded := newPoints, status := COMPLETED\<rparr>) s);
                     s2 = update_rickshaws (rickshawID ride)
                            (\<lambda>r. r\<lparr>totalPoints := totalPoints r + pointDiff\<rparr>) s1;
                     s3 = insert_history (rickshawID ride) (Some rideID) pointDiff 0
                            ADJUSTED now s2
                 in (Inr pointDiff, s3)))"

text \<open>
  \<^verbatim>\<open>POST /api/admin/expire-points\<close>. The handler derives the text \<^verbatim>\<open>expiryDate\<close>
  from the clock and the requested number of days; the model takes that text as its
  argument. \<open>expired_rows\<close> is the selection query: the \<^verbatim>\<open>EARNED\<close> rows older than
  \<^verbatim>\<open>expiryDate\<close> for which the \<^verbatim>\<open>NOT EXISTS\<close> subquery finds no row \<^verbatim>\<open>h2\<close> with
  \<^verbatim>\<open>h2.historyID = h.historyID\<close> and type \<^verbatim>\<open>EXPIRED\<close>, grouped by rickshaw with the
  sum of \<^verbatim>\<open>pointsEarned\<close> (SQL fixes no order of the groups; the model lists each
  rickshaw at the place of its last selected row). \<open>expire_each\<close> is the
  \<^verbatim>\<open>forEach\<close> over the result with its accumulator \<^verbatim>\<open>totalExpired\<close>.
\<close>

definition expired_rows :: "points_row list \<Rightarrow> timestamp \<Rightarrow> (string \<times> int) list" where
  "expired_rows hist expiryDate =
     (let sel = filter (\<lambda>h. transactionType h = EARNED \<and> transactionDate h < expiryDate \<and>
                    \<not> list_ex (\<lambda>h2. historyID h2 = historyID h \<and>
                                     transactionType h2 = EXPIRED) hist) hist
      in map (\<lambda>k. (k, sum_list (map pointsEarned (filter (\<lambda>h. h_rickshawID h = k) sel))))
           (remdups (map h_rickshawID sel)))"

fun expire_each :: "(string \<times> int) list \<Rightarrow> timestamp \<Rightarrow> db \<Rightarrow> int \<Rightarrow> int \<times> db" where
  "expire_each [] now s totalExpired = (totalExpired, s)"
| "expire_each ((k, expiredPoints) # rows) now s totalExpired =
     expire_each rows now
       (insert_history (Some k) None (- expiredPoints) 0 EXPIRED now
          (update_rickshaws (Some k)
             (\<lambda>r. r\<lparr>totalPoints := totalPoints r - expiredPoints\<rparr>) s))
       (totalExpired + expiredPoints)"

record expire_response =
  resp_expired :: int
  resp_rickshaws :: "nat option"

definition expire_points ::
  "timestamp \<Rightarrow> timestamp \<Rightarrow> db \<Rightarrow> (error + expire_response) \<times> db" where
  "expire_points expiryDate now s =
     (let rows = expired_rows (points_history s) expiryDate
      in if rows = [] then (Inr \<lparr>resp_expired = 0, resp_rickshaws = None\<rparr>, s)
         else
           let (totalExpired, s1) = expire_each rows now s 0
           in (Inr \<lparr>resp_expired = totalExpired, resp_rickshaws = Some (length rows)\<rparr>, s1))"

section \<open>Acceptances that overlap on the shared connection\<close>

text \<open>
  The server opens one connection (\<^verbatim>\<open>const db = new sqlite3.Database(...)\<close>) and every
  handler issues its statements on it. A connection has at most one transaction open:
  SQLite refuses \<^verbatim>\<open>BEGIN TRANSACTION\<close> while one is open, and \<^verbatim>\<open>COMMIT\<close> and
  \<^verbatim>\<open>ROLLBACK\<close> while none is; \<^verbatim>\<open>ROLLBACK\<close> returns the database to what it was at
  \<^verbatim>\<open>BEGIN\<close>. The handler issues these three statements without a callback and the
  server registers no \<^verbatim>\<open>error\<close> listener, so a refusal is an unhandled error event,
  on which the process exits. \<open>transaction\<close> holds the database as it was at
  \<^verbatim>\<open>BEGIN\<close> while a transaction is open.
\<close>

record connection =
  store :: db
  transaction :: "db option"
  exited :: bool

definition sql_begin :: "connection \<Rightarrow> connection" where
  "sql_begin c =
     (case transaction c of
        None \<Rightarrow> c\<lparr>transaction := Some (store c)\<rparr>
      | Some snapshot \<Rightarrow> c\<lparr>exited := True\<rparr>)"

definition sql_commit :: "connection \<Rightarrow> connection" where
  "sql_commit c =
     (case transaction c of
        None \<Rightarrow> c\<lparr>exited := True\<rparr>
      | Some snapshot \<Rightarrow> c\<lparr>transaction := None\<rparr>)"

definition sql_rollback :: "connection \<Rightarrow> connection" where
  "sql_rollback c =
     (case transaction c of
        None \<Rightarrow> c\<lparr>exited := True\<rparr>
      | Some snapshot \<Rightarrow> c\<lparr>store := snapshot, transaction := None\<rparr>)"

text \<open>
  One call of \<^verbatim>\<open>POST /api/ride/accept\<close> that has passed the check for missing fields,
  as the statements it issues one by one: \<open>call_pc\<close> is the statement that runs next,
  \<open>call_answer\<close> the response once sent. A step runs one statement together with its
  callback, which sends the response and issues the statements that follow:
  \<^item> \<open>AtBegin\<close>: \<^verbatim>\<open>BEGIN TRANSACTION\<close>;
  \<^item> \<open>AtSelect\<close>: the read of the ride; its callback refuses and issues
    \<^verbatim>\<open>ROLLBACK\<close>, or issues the conditional update;
  \<^item> \<open>AtUpdate ride\<close>: the conditional update, \<open>ride\<close> being the row read; its callback
    refuses and issues \<^verbatim>\<open>ROLLBACK\<close> when no row changed, and otherwise issues the update
    of the rickshaw and \<^verbatim>\<open>COMMIT\<close> and answers with success;
  \<^item> \<open>AtRollback\<close>, \<open>AtOnRide\<close>, \<open>AtCommit\<close>: those statements.
  After the process has exited nothing runs.
\<close>

datatype accept_pc = AtBegin | AtSelect | AtUpdate ride | AtRollback | AtOnRide | AtCommit | Finished

record accept_call =
  call_rideID :: nat
  call_rickID :: string
  call_now :: timestamp
  call_pc :: accept_pc
  call_answer :: "accept_response option"

definition accept_step :: "accept_call \<Rightarrow> connection \<Rightarrow> accept_call \<times> connection" where
  "accept_step a c =
     (if exited c then (a, c)
      else
        case call_pc a of
          AtBegin \<Rightarrow> (a\<lparr>call_pc := AtSelect\<rparr>, sql_begin c)
        | AtSelect \<Rightarrow>
            (case rides (store c) (call_rideID a) of
               None \<Rightarrow>
                 (a\<lparr>call_pc := AtRollback,
                    call_answer := Some (AcceptFailure ''Ride already taken by another puller'')\<rparr>, c)
             | Some ride \<Rightarrow>
                 if status ride \<noteq> PENDING
                 then (a\<lparr>call_pc := AtRollback,
                         call_answer := Some (AcceptFailure ''Ride already taken by another puller'')\<rparr>,
                       c)
                 else (a\<lparr>call_pc := AtUpdate ride\<rparr>, c))
        | AtUpdate ride \<Rightarrow>
            (let (changes, d) =
                   update_rides (call_rideID a) (\<lambda>r. status r = PENDING)
                     (\<lambda>r. r\<lparr>status := ACCEPTED, rickshawID := Some (call_rickID a),
                             acceptTime := Some (call_now a)\<rparr>) (store c)
             in if changes = 0
                then (a\<lparr>call_pc := AtRollback,
                        call_answer := Some (AcceptFailure ''Race condition'')\<rparr>, c\<lparr>store := d\<rparr>)
                else (a\<lparr>call_pc := AtOnRide,
                        call_answer := Some (AcceptSuccess (call_rideID a) (pickupBlock ride)
                                               (destination ride))\<rparr>, c\<lparr>store := d\<rparr>))
        | AtRollback \<Rightarrow> (a\<lparr>call_pc := Finished\<rparr>, sql_rollback c)
        | AtOnRide \<Rightarrow>
            (a\<lparr>call_pc := AtCommit\<rparr>,
             c\<lparr>store := update_rickshaws (Some (call_rickID a))
                            (\<lambda>r. r\<lparr>rickshaw_status := ON_RIDE\<rparr>) (store c)\<rparr>)
        | AtCommit \<Rightarrow> (a\<lparr>call_pc := Finished\<rparr>, sql_commit c)
        | Finished \<Rightarrow> (a, c))"

text \<open>
  Two calls on the connection; a schedule names, statement by statement, the call whose
  next statement runs.
\<close>

datatype turn = First | Second

fun run_schedule ::
  "turn list \<Rightarrow> accept_call \<times> accept_call \<times> connection \<Rightarrow>
     accept_call \<times> accept_call \<times> connection" where
  "run_schedule [] sys = sys"
| "run_schedule (First # sched) (a, b, c) =
     (let (a', c') = accept_step a c in run_schedule sched (a', b, c'))"
| "run_schedule (Second # sched) (a, b, c) =
     (let (b', c') = accept_step b c in run_schedule sched (a, b', c'))"

definition new_call :: "nat \<Rightarrow> string \<Rightarrow> timestamp \<Rightarrow> accept_call" where
  "new_call rideID rickID now =
     \<lparr>call_rideID = rideID, call_rickID = rickID, call_now = now, call_pc = AtBegin,
       call_answer = None\<rparr>"

definition idle_connection :: "db \<Rightarrow> connection" where
  "idle_connection s = \<lparr>store = s, transaction = None, exited = False\<rparr>"

section \<open>The points ledger as a sum over the transaction log\<close>

text \<open>
  The sum of one column over the rows of one rickshaw and one transaction type. An
  \<^verbatim>\<open>EARNED\<close>, \<^verbatim>\<open>ADJUSTED\<close> or \<^verbatim>\<open>EXPIRED\<close> row records its amount in
  \<^verbatim>\<open>pointsEarned\<close>, a \<^verbatim>\<open>SPENT\<close> row in \<^verbatim>\<open>pointsSpent\<close>.
\<close>

definition ledger_sum ::
  "(points_row \<Rightarrow> int) \<Rightarrow> transaction_type \<Rightarrow> points_row list \<Rightarrow> string \<Rightarrow> int" where
  "ledger_sum col ty hist k =
     sum_list (map col (filter (\<lambda>h. h_rickshawID h = k \<and> transactionType h = ty) hist))"

definition sum_earned :: "points_row list \<Rightarrow> string \<Rightarrow> int" where
  "sum_earned = ledger_sum pointsEarned EARNED"

definition sum_spent :: "points_row list \<Rightarrow> string \<Rightarrow> int" where
  "sum_spent = ledger_sum pointsSpent SPENT"

definition sum_adjusted :: "points_row list \<Rightarrow> string \<Rightarrow> int" where
  "sum_adjusted = ledger_sum pointsEarned ADJUSTED"

definition sum_expired :: "points_row list \<Rightarrow> string \<Rightarrow> int" where
  "sum_expired = ledger_sum pointsEarned EXPIRED"

text \<open>
  What a row with the given \<^verbatim>\<open>pointsEarned\<close>, \<^verbatim>\<open>pointsSpent\<close> and type adds to
  \<open>ledger_balance\<close> (defined below) of its rickshaw.
\<close>

definition contribution :: "int \<Rightarrow> int \<Rightarrow> transaction_type \<Rightarrow> int" where
  "contribution earned spent ty = (case ty of SPENT \<Rightarrow> - spent | _ \<Rightarrow> earned)"

text \<open>
  The balance as the specification words it,
  \<open>sum(earned) - sum(spent) + sum(adjusted) - sum(expired)\<close> over the recorded amounts.
\<close>

definition spec_balance :: "points_row list \<Rightarrow> string \<Rightarrow> int" where
  "spec_balance hist k =
     sum_earned hist k - sum_spent hist k + sum_adjusted hist k - sum_expired hist k"

text \<open>
  The balance with the recorded amounts of the \<^verbatim>\<open>EXPIRED\<close> rows added: the handler
  records them negated.
\<close>

definition ledger_balance :: "points_row list \<Rightarrow> string \<Rightarrow> int" where
  "ledger_balance hist k =
     sum_earned hist k - sum_spent hist k + sum_adjusted hist k + sum_expired hist k"

text \<open>
  The cached \<^verbatim>\<open>totalPoints\<close> of rickshaw \<open>k\<close>, if it is registered, equals the balance
  \<open>bal\<close> computed from the log.
\<close>

definition balance_matches :: "(points_row list \<Rightarrow> string \<Rightarrow> int) \<Rightarrow> db \<Rightarrow> string \<Rightarrow> bool" where
  "balance_matches bal s k =
     (case rickshaws s k of
        None \<Rightarrow> True
      | Some r \<Rightarrow> totalPoints r = bal (points_history s) k)"

text \<open>Sequences of the operations that touch points; responses are dropped.\<close>

datatype operation =
    CompleteRide nat real real timestamp
  | Redeem string int timestamp
  | AdjustAward nat int timestamp
  | ExpireOlderThan timestamp timestamp

fun apply_operation :: "operation \<Rightarrow> db \<Rightarrow> db" where
  "apply_operation (CompleteRide rideID lat lng now) s =
     snd (complete_ride rideID (Some lat) (Some lng) now s)"
| "apply_operation (Redeem rickID points now) s = snd (redeem_points rickID points now s)"
| "apply_operation (AdjustAward rideID newPoints now) s =
     snd (adjust_points rideID (Some newPoints) now s)"
| "apply_operation (ExpireOlderThan expiryDate now) s = snd (expire_points expiryDate now s)"

definition run :: "operation list \<Rightarrow> db \<Rightarrow> db" where
  "run ops s = fold apply_operation ops s"

section \<open>What the specification says of redemption and of refused acceptances\<close>

text \<open>
  Redemption as the specification words it, for a registered rickshaw with row \<open>r\<close>: with
  a balance below the amount the request fails with \<^verbatim>\<open>Insufficient points\<close> and nothing
  changes; otherwise the balance is debited by the amount, one \<^verbatim>\<open>SPENT\<close> row for the
  amount is appended, and the new balance is returned.
\<close>

definition redeem_as_specified :: "string \<Rightarrow> int \<Rightarrow> timestamp \<Rightarrow> db \<Rightarrow> rickshaw \<Rightarrow> bool" where
  "redeem_as_specified rickID amount now s r =
     (let resp = fst (redeem_points rickID amount now s);
          s' = snd (redeem_points rickID amount now s)
      in if totalPoints r < amount
         then resp = Inl (HttpError 400 ''Insufficient points'') \<and> s' = s
         else resp = Inr (totalPoints r - amount) \<and>
              (\<exists>row. s' = s\<lparr>rickshaws :=
                               (rickshaws s)(rickID \<mapsto> r\<lparr>totalPoints := totalPoints r - amount\<rparr>),
                             points_history := points_history s @ [row]\<rparr> \<and>
                     h_rickshawID row = rickID \<and> transactionType row = SPENT \<and>
                     pointsSpent row = amount \<and> pointsEarned row = 0))"

text \<open>
  A refused acceptance as the specification words it: the response is
  \<^verbatim>\<open>success: false\<close>, not an error, and the database is unchanged.
\<close>

definition accept_refused :: "nat \<Rightarrow> string \<Rightarrow> timestamp \<Rightarrow> db \<Rightarrow> bool" where
  "accept_refused rideID rickID now s =
     ((case fst (accept_ride rideID rickID now s) of
         Inr (AcceptFailure msg) \<Rightarrow> True
       | _ \<Rightarrow> False) \<and>
      snd (accept_ride rideID rickID now s) = s)"

section \<open>Well-formed databases\<close>

text \<open>
  What the handlers maintain about the table of rides: there is no ride 0 (identities are
  handed out from 1), and no ride is assigned to the empty rickshaw identity (an acceptance
  under it is rejected as a missing field).
\<close>

definition wf_db :: "db \<Rightarrow> bool" where
  "wf_db s =
     (rides s 0 = None \<and> (\<forall>i r. rides s i = Some r \<longrightarrow> rickshawID r \<noteq> Some []))"

section \<open>Example data\<close>

text \<open>
  The four locations the server seeds, and the rickshaw of the device client registered
  at the campus.
\<close>

definition seed_locations :: "string \<rightharpoonup> location" where
  "seed_locations =
     [''CUET_CAMPUS'' \<mapsto> \<lparr>locationName = ''CUET Campus'', latitude = 22.4633, longitude = 91.9714\<rparr>,
      ''PAHARTOLI'' \<mapsto> \<lparr>locationName = ''Pahartoli'', latitude = 22.4725, longitude = 91.9845\<rparr>,
      ''NOAPARA'' \<mapsto> \<lparr>locationName = ''Noapara'', latitude = 22.4580, longitude = 91.9920\<rparr>,
      ''RAOJAN'' \<mapsto> \<lparr>locationName = ''Raojan'', latitude = 22.4520, longitude = 91.9650\<rparr>]"

definition rick001 :: rickshaw where
  "rick001 =
     \<lparr>pullerName = ''Abdul Karim'', phoneNumber = None,
       currentLat = 22.4633, currentLng = 91.9714, isOnline = True,
       totalPoints = 0, rickshaw_status = AVAILABLE, lastUpdated = ''2026-01-05 09:00:00''\<rparr>"

definition ride1 :: ride where
  "ride1 =
     \<lparr>userID = ''GUEST'', rickshawID = None,
       pickupBlock = ''CUET_CAMPUS'', destination = ''PAHARTOLI'',
       requestTime = ''2026-01-05 10:00:00'', acceptTime = None, pickupTime = None,
       dropTime = None, status = PENDING, dropLat = None, dropLng = None,
       dropDistance = None, pointsAwarded = 0\<rparr>"

text \<open>One registered rickshaw, no ride yet.\<close>

definition db_idle :: db where
  "db_idle =
     \<lparr>rickshaws = [''RICK001'' \<mapsto> rick001], rides = Map.empty, rides_seq = 0,
       locations = seed_locations, points_history = []\<rparr>"

text \<open>Ride 1 has been requested and is \<^verbatim>\<open>PENDING\<close>.\<close>

definition db_pending :: db where
  "db_pending = db_idle\<lparr>rides := [1 \<mapsto> ride1], rides_seq := 1\<rparr>"

text \<open>Ride 1 has been accepted by \<^verbatim>\<open>RICK001\<close> and picked up.\<close>

definition db_pickup :: db where
  "db_pickup =
     db_idle\<lparr>rickshaws := [''RICK001'' \<mapsto> rick001\<lparr>rickshaw_status := ON_RIDE\<rparr>],
             rides := [1 \<mapsto> ride1\<lparr>status := PICKUP, rickshawID := Some ''RICK001'',
                                  acceptTime := Some ''2026-01-05 10:00:20'',
                                  pickupTime := Some ''2026-01-05 10:03:00''\<rparr>],
             rides_seq := 1\<rparr>"

text \<open>
  Ride 1 has been completed at its destination: \<^verbatim>\<open>RICK001\<close> holds 10 points, earned
  by one \<^verbatim>\<open>EARNED\<close> row.
\<close>

definition db_earned :: db where
  "db_earned =
     db_idle\<lparr>rickshaws := [''RICK001'' \<mapsto> rick001\<lparr>totalPoints := 10\<rparr>],
             rides := [1 \<mapsto> ride1\<lparr>status := COMPLETED, rickshawID := Some ''RICK001'',
                                  acceptTime := Some ''2026-01-05 10:00:20'',
                                  pickupTime := Some ''2026-01-05 10:03:00'',
                                  dropTime := Some ''2026-01-05 10:15:00'',
                                  dropLat := Some 22.4725, dropLng := Some 91.9845,
                                  dropDistance := Some 0, pointsAwarded := 10\<rparr>],
             rides_seq := 1,
             points_history :=
               [\<lparr>historyID = 1, h_rickshawID = ''RICK001'', h_rideID = Some 1,
                 pointsEarned = 10, pointsSpent = 0, transactionType = EARNED,
                 transactionDate = ''2026-01-05 10:15:00''\<rparr>]\<rparr>"

section \<open>Auxiliary facts\<close>

lemmas example_defs =
  db_idle_def db_pending_def db_pickup_def db_earned_def ride1_def rick001_def seed_locations_def

lemmas statement_defs = update_rides_def update_rickshaws_def insert_history_def

text \<open>The distance from a point to itself is zero.\<close>

lemma calculateDistance_same: "calculateDistance a b a b = 0"
  by (simp add: calculateDistance_def atan2_def)

lemma calculatePoints_nonneg: "0 \<le> calculatePoints d"
  by (simp add: calculatePoints_def Let_def max_def)

lemma update_rides_frame:
  "rickshaws (snd (update_rides rideID cond f s)) = rickshaws s"
  "points_history (snd (update_rides rideID cond f s)) = points_history s"
  "locations (snd (update_rides rideID cond f s)) = locations s"
  by (simp_all add: update_rides_def split: option.splits)

subsection \<open>Every handler keeps the database well formed\<close>

lemma wf_db_update_rides:
  assumes "wf_db s" and "\<And>r. rickshawID r \<noteq> Some [] \<Longrightarrow> rickshawID (f r) \<noteq> Some []"
  shows "wf_db (snd (update_rides rideID cond f s))"
  using assms
  by (auto simp add: wf_db_def update_rides_def split: option.splits)

lemma wf_db_update_rickshaws: "wf_db (update_rickshaws key f s) = wf_db s"
  by (simp add: wf_db_def update_rickshaws_def split: option.splits)

lemma wf_db_insert_history: "wf_db (insert_history key rideID earned spent ty now s) = wf_db s"
  by (simp add: wf_db_def insert_history_def split: option.splits)

lemma wf_db_expire_each: "wf_db (snd (expire_each rows now s acc)) = wf_db s"
  by (induction rows now s acc rule: expire_each.induct)
     (simp_all add: wf_db_update_rickshaws wf_db_insert_history)

lemma wf_db_request_ride: "wf_db s \<Longrightarrow> wf_db (snd (request_ride blockID dest user now s))"
  by (simp add: wf_db_def request_ride_def Let_def)

lemma wf_db_watchdog: "wf_db s_write \<Longrightarrow> wf_db (watchdog rideID s_read s_write)"
  by (simp add: watchdog_def wf_db_update_rides split: option.splits)

lemma wf_db_accept_ride: "wf_db s \<Longrightarrow> wf_db (snd (accept_ride rideID rickID now s))"
  by (auto simp add: accept_ride_def Let_def wf_db_update_rickshaws
        split: option.splits prod.splits
        dest: wf_db_update_rides [where rideID = rideID and cond = "\<lambda>r. status r = PENDING"
          and f = "\<lambda>r. r\<lparr>status := ACCEPTED, rickshawID := Some rickID, acceptTime := Some now\<rparr>"])

lemma wf_db_confirm_pickup: "wf_db s \<Longrightarrow> wf_db (snd (confirm_pickup rideID now s))"
  using wf_db_update_rides [of s "\<lambda>r. r\<lparr>status := PICKUP, pickupTime := Some now\<rparr>" rideID
      "\<lambda>r. status r = ACCEPTED"]
  by (auto simp add: confirm_pickup_def Let_def split: prod.splits)

lemma wf_db_cancel_ride: "wf_db s \<Longrightarrow> wf_db (snd (cancel_ride rideID rickID s))"
  using wf_db_update_rides [of s
      "\<lambda>r. r\<lparr>status := PENDING, rickshawID := None, acceptTime := None\<rparr>" rideID
      "\<lambda>r. rickshawID r = Some rickID \<and> status r \<in> {ACCEPTED, PICKUP}"]
  by (auto simp add: cancel_ride_def Let_def wf_db_update_rickshaws split: prod.splits)

lemma wf_db_complete_ride:
  "wf_db s \<Longrightarrow> wf_db (snd (complete_ride rideID lat lng now s))"
  by (auto simp add: complete_ride_def Let_def wf_db_update_rickshaws wf_db_insert_history
        wf_db_update_rides split: option.splits)

lemma wf_db_adjust_points:
  "wf_db s \<Longrightarrow> wf_db (snd (adjust_points rideID newPoints now s))"
  by (auto simp add: adjust_points_def Let_def wf_db_update_rickshaws wf_db_insert_history
        wf_db_update_rides split: option.splits)

lemma wf_db_redeem_points:
  "wf_db s \<Longrightarrow> wf_db (snd (redeem_points rickID points now s))"
  by (auto simp add: redeem_points_def Let_def wf_db_update_rickshaws wf_db_insert_history
        split: option.splits)

lemma wf_db_expire_points:
  "wf_db s \<Longrightarrow> wf_db (snd (expire_points expiryDate now s))"
  using wf_db_expire_each [of "expired_rows (points_history s) expiryDate" now s 0]
  by (auto simp add: expire_points_def Let_def split: prod.splits)

lemma wf_db_examples: "wf_db db_idle" "wf_db db_pending" "wf_db db_pickup" "wf_db db_earned"
  by (simp_all add: wf_db_def db_idle_def db_pending_def db_pickup_def db_earned_def ride1_def)

lemma wf_db_ride_nonzero: "wf_db s \<Longrightarrow> rides s rideID = Some ride \<Longrightarrow> rideID \<noteq> 0"
  by (cases "rideID = 0") (simp_all add: wf_db_def)

lemma wf_db_rickshaw_nonempty:
  "wf_db s \<Longrightarrow> rides s rideID = Some ride \<Longrightarrow> rickshawID ride = Some rickID \<Longrightarrow> rickID \<noteq> []"
  by (auto simp add: wf_db_def)

subsection \<open>The example databases\<close>

text \<open>The example databases follow one another by the handlers.\<close>

lemma request_ride_example:
  "request_ride ''CUET_CAMPUS'' ''PAHARTOLI'' None ''2026-01-05 10:00:00'' db_idle =
     (Inr 1, db_pending)"
  by (simp add: request_ride_def example_defs Let_def)

lemma accept_pickup_example:
  "snd (confirm_pickup 1 ''2026-01-05 10:03:00''
     (snd (accept_ride 1 ''RICK001'' ''2026-01-05 10:00:20'' db_pending))) = db_pickup"
  by (simp add: confirm_pickup_def accept_ride_def example_defs statement_defs Let_def)

lemma complete_ride_example:
  "complete_ride 1 (Some 22.4725) (Some 91.9845) ''2026-01-05 10:15:00'' db_pickup =
     (Inr \<lparr>resp_points = 10, resp_distance = 0, resp_status = COMPLETED\<rparr>, db_earned)"
  by (simp add: complete_ride_def example_defs statement_defs Let_def calculateDistance_same
        calculatePoints_def toFixed2_def)

section \<open>The reward score\<close>

text \<open>
  Claim C5. For every distance \<open>d\<close> the score is 10 when \<open>d \<le> 0\<close>, is
  \<open>max (10 - floor (d / 10)) 8\<close> when \<open>0 < d \<le> 50\<close>, is 5 when \<open>50 < d \<le> 100\<close>
  and is 0 when \<open>d > 100\<close>; the breakpoints 50 and 100 belong to the lower band, so the
  score at 50 lies in \<open>[8, 10]\<close> and the score at 100 is 5; and the score always lies in
  \<open>[0, 10]\<close>.
\<close>

theorem calculatePoints_bands:
  "(d \<le> 0 \<longrightarrow> calculatePoints d = 10) \<and>
   (0 < d \<and> d \<le> 50 \<longrightarrow> calculatePoints d = max (10 - \<lfloor>d / 10\<rfloor>) 8) \<and>
   (50 < d \<and> d \<le> 100 \<longrightarrow> calculatePoints d = 5) \<and>
   (100 < d \<longrightarrow> calculatePoints d = 0) \<and>
   calculatePoints 50 \<in> {8..10} \<and>
   calculatePoints 100 = 5 \<and>
   0 \<le> calculatePoints d \<and> calculatePoints d \<le> 10"
proof -
  have lo: "0 \<le> calculatePoints d"
    by (simp add: calculatePoints_def Let_def max_def)
  have "0 < d \<Longrightarrow> 0 \<le> \<lfloor>d / 10\<rfloor>"
    by simp
  then have hi: "calculatePoints d \<le> 10"
    by (auto simp add: calculatePoints_def Let_def max_def)
  have at50: "calculatePoints 50 = 8"
    by (simp add: calculatePoints_def Let_def)
  have at100: "calculatePoints 100 = 5"
    by (simp add: calculatePoints_def Let_def)
  show ?thesis
    using lo hi at50 at100 by (simp add: calculatePoints_def Let_def)
qed

text \<open>One distance in each band, and two inside the decaying band.\<close>

theorem calculatePoints_bands_witness:
  "calculatePoints (-3) = 10 \<and> calculatePoints 7 = 10 \<and> calculatePoints 12 = 9 \<and>
   calculatePoints 49 = 8 \<and> calculatePoints 75 = 5 \<and> calculatePoints 150 = 0"
proof -
  have a: "calculatePoints (-3) = 10"
    using calculatePoints_bands [of "-3"] by simp
  have b: "calculatePoints 7 = 10"
    using calculatePoints_bands [of 7] by simp
  have c: "calculatePoints 12 = 9"
    using calculatePoints_bands [of 12] by simp
  have d: "calculatePoints 49 = 8"
    using calculatePoints_bands [of 49] by simp
  have e: "calculatePoints 75 = 5"
    using calculatePoints_bands [of 75] by simp
  have f: "calculatePoints 150 = 0"
    using calculatePoints_bands [of 150] by simp
  show ?thesis
    using a b c d e f by simp
qed

section \<open>The ride lifecycle\<close>

subsection \<open>Acceptance and pickup step along the lifecycle\<close>

text \<open>
  \<open>accept_ride\<close> changes no ride but the one it names, and that one only from
  \<^verbatim>\<open>PENDING\<close> to \<^verbatim>\<open>ACCEPTED\<close>; \<open>confirm_pickup\<close> likewise only from
  \<^verbatim>\<open>ACCEPTED\<close> to \<^verbatim>\<open>PICKUP\<close>.
\<close>

lemma accept_ride_transition:
  assumes "rides s rideID' = Some r"
    and "rides (snd (accept_ride rideID rickID now s)) rideID' = Some r'"
  shows "r' = r \<or> (rideID' = rideID \<and> status r = PENDING \<and> status r' = ACCEPTED)"
  using assms
  by (auto simp add: accept_ride_def statement_defs Let_def split: option.splits if_splits)

lemma confirm_pickup_transition:
  assumes "rides s rideID' = Some r"
    and "rides (snd (confirm_pickup rideID now s)) rideID' = Some r'"
  shows "r' = r \<or> (rideID' = rideID \<and> status r = ACCEPTED \<and> status r' = PICKUP)"
  using assms
  by (auto simp add: confirm_pickup_def statement_defs Let_def split: option.splits if_splits)

text \<open>
  Of two acceptances that run one after the other, the second is refused and the ride
  stays with the first rickshaw.
\<close>

lemma accept_ride_then_refused:
  assumes "fst (accept_ride rideID rickID now s) = Inr (AcceptSuccess a b c)"
    and "other \<noteq> []"
  shows "accept_refused rideID other later (snd (accept_ride rideID rickID now s))"
    and "map_option rickshawID (rides (snd (accept_ride rideID rickID now s)) rideID) =
           Some (Some rickID)"
  using assms
  by (auto simp add: accept_refused_def accept_ride_def statement_defs Let_def
        split: option.splits if_splits)

subsection \<open>Two acceptances at once\<close>

text \<open>Once the process has exited no statement runs; schedules compose.\<close>

lemma run_schedule_exited: "exited c \<Longrightarrow> run_schedule sched (a, b, c) = (a, b, c)"
proof (induction sched)
  case Nil
  then show ?case by simp
next
  case (Cons t sched)
  then show ?case by (cases t) (simp_all add: accept_step_def)
qed

lemma run_schedule_append:
  "run_schedule (xs @ ys) sys = run_schedule ys (run_schedule xs sys)"
proof (induction xs arbitrary: sys)
  case Nil
  then show ?case by simp
next
  case (Cons t xs)
  obtain a b c where sys: "sys = (a, b, c)" by (cases sys)
  show ?case by (cases t) (simp_all add: sys Cons.IH split: prod.splits)
qed

text \<open>
  A call that runs alone on an idle connection, statement by statement, ends with the
  response and the database of \<open>accept_ride\<close>.
\<close>

lemma accept_alone:
  assumes "rideID \<noteq> 0" and "rickID \<noteq> []"
  shows "\<exists>n a. run_schedule (replicate n First) (new_call rideID rickID now, b, idle_connection s) =
           (a, b, idle_connection (snd (accept_ride rideID rickID now s))) \<and>
           call_pc a = Finished \<and>
           map_option Inr (call_answer a) = Some (fst (accept_ride rideID rickID now s))"
proof (cases "rides s rideID")
  case None
  have "run_schedule (replicate 3 First) (new_call rideID rickID now, b, idle_connection s) =
      (\<lparr>call_rideID = rideID, call_rickID = rickID, call_now = now, call_pc = Finished,
        call_answer = Some (AcceptFailure ''Ride already taken by another puller'')\<rparr>, b,
       idle_connection s)"
    using None
    by (simp add: numeral_3_eq_3 accept_step_def new_call_def idle_connection_def sql_begin_def
          sql_rollback_def)
  then show ?thesis
    using assms None by (intro exI [of _ 3] exI) (auto simp add: accept_ride_def)
next
  case (Some ride)
  show ?thesis
  proof (cases "status ride = PENDING")
    case False
    have "run_schedule (replicate 3 First) (new_call rideID rickID now, b, idle_connection s) =
        (\<lparr>call_rideID = rideID, call_rickID = rickID, call_now = now, call_pc = Finished,
          call_answer = Some (AcceptFailure ''Ride already taken by another puller'')\<rparr>, b,
         idle_connection s)"
      using Some False
      by (simp add: numeral_3_eq_3 accept_step_def new_call_def idle_connection_def sql_begin_def
            sql_rollback_def)
    then show ?thesis
      using assms Some False by (intro exI [of _ 3] exI) (auto simp add: accept_ride_def)
  next
    case True
    have "run_schedule (replicate 5 First) (new_call rideID rickID now, b, idle_connection s) =
        (\<lparr>call_rideID = rideID, call_rickID = rickID, call_now = now, call_pc = Finished,
          call_answer = Some (AcceptSuccess rideID (pickupBlock ride) (destination ride))\<rparr>, b,
         idle_connection (snd (accept_ride rideID rickID now s)))"
      using Some True assms
      by (simp add: eval_nat_numeral accept_step_def new_call_def idle_connection_def
            sql_begin_def sql_commit_def accept_ride_def statement_defs Let_def
            split: option.splits)
    then show ?thesis
      using assms Some True
      by (intro exI [of _ 5] exI) (auto simp add: accept_ride_def statement_defs Let_def)
  qed
qed

text \<open>
  When the second call starts only after the first has committed, the first is accepted
  and the second refused.
\<close>

lemma accept_sequential_example:
  "run_schedule [First, First, First, First, First, Second, Second, Second]
     (new_call 1 ''RICK001'' ''2026-01-05 10:00:20'',
      new_call 1 ''RICK002'' ''2026-01-05 10:00:21'',
      idle_connection db_pending) =
   (\<lparr>call_rideID = 1, call_rickID = ''RICK001'', call_now = ''2026-01-05 10:00:20'',
      call_pc = Finished,
      call_answer = Some (AcceptSuccess 1 ''CUET_CAMPUS'' ''PAHARTOLI'')\<rparr>,
    \<lparr>call_rideID = 1, call_rickID = ''RICK002'', call_now = ''2026-01-05 10:00:21'',
      call_pc = Finished,
      call_answer = Some (AcceptFailure ''Ride already taken by another puller'')\<rparr>,
    idle_connection (snd (accept_ride 1 ''RICK001'' ''2026-01-05 10:00:20'' db_pending)))"
  by (simp add: accept_step_def new_call_def idle_connection_def sql_begin_def sql_commit_def
        sql_rollback_def accept_ride_def example_defs statement_defs Let_def)

text \<open>
  The conditional update by itself arbitrates: of two calls that have both read the ride
  as \<^verbatim>\<open>PENDING\<close>, the one whose update runs first is accepted, the other finds no row
  to change and is refused with \<^verbatim>\<open>Race condition\<close>.
\<close>

lemma conditional_update_arbitrates:
  assumes "rides (store c) rideID = Some ride" and "status ride = PENDING" and "\<not> exited c"
  shows "\<exists>a' b' c'.
     run_schedule [First, Second]
       (\<lparr>call_rideID = rideID, call_rickID = rick1, call_now = now1, call_pc = AtUpdate ride,
          call_answer = None\<rparr>,
        \<lparr>call_rideID = rideID, call_rickID = rick2, call_now = now2, call_pc = AtUpdate ride,
          call_answer = None\<rparr>, c) = (a', b', c') \<and>
     call_answer a' = Some (AcceptSuccess rideID (pickupBlock ride) (destination ride)) \<and>
     call_answer b' = Some (AcceptFailure ''Race condition'') \<and>
     map_option rickshawID (rides (store c') rideID) = Some (Some rick1)"
  using assms
  by (simp add: accept_step_def update_rides_def)

text \<open>
  Claim C1 says that of two concurrent acceptances of a \<^verbatim>\<open>PENDING\<close> ride by different
  rickshaws exactly one is answered with success and the other with a refusal, and that
  the ride then has one rickshaw. Two requests for ride 1 of \<open>db_pending\<close> arrive
  together: the first call begins its transaction and reads the ride, then the second call's
  \<^verbatim>\<open>BEGIN TRANSACTION\<close> runs while the first transaction is open. It is refused and the
  process exits. Whatever the schedule has next, neither call is ever answered, the ride
  is still \<^verbatim>\<open>PENDING\<close> and the first transaction is never committed.
\<close>

theorem accept_ride_overlapping_exits:
  "run_schedule ([First, First, Second] @ rest)
     (new_call 1 ''RICK001'' ''2026-01-05 10:00:20'',
      new_call 1 ''RICK002'' ''2026-01-05 10:00:20'',
      idle_connection db_pending) =
   (new_call 1 ''RICK001'' ''2026-01-05 10:00:20''\<lparr>call_pc := AtUpdate ride1\<rparr>,
    new_call 1 ''RICK002'' ''2026-01-05 10:00:20''\<lparr>call_pc := AtSelect\<rparr>,
    \<lparr>store = db_pending, transaction = Some db_pending, exited = True\<rparr>)"
proof -
  have "run_schedule [First, First, Second]
     (new_call 1 ''RICK001'' ''2026-01-05 10:00:20'',
      new_call 1 ''RICK002'' ''2026-01-05 10:00:20'',
      idle_connection db_pending) =
   (new_call 1 ''RICK001'' ''2026-01-05 10:00:20''\<lparr>call_pc := AtUpdate ride1\<rparr>,
    new_call 1 ''RICK002'' ''2026-01-05 10:00:20''\<lparr>call_pc := AtSelect\<rparr>,
    \<lparr>store = db_pending, transaction = Some db_pending, exited = True\<rparr>)"
    by (simp add: accept_step_def new_call_def idle_connection_def sql_begin_def
          db_pending_def db_idle_def ride1_def)
  then show ?thesis
    by (simp only: run_schedule_append) (simp add: run_schedule_exited)
qed

subsection \<open>Completion does not check the status\<close>

text \<open>
  Claim C2 says that the public operations never skip a state, and in particular that
  completing a ride whose status is not \<^verbatim>\<open>PICKUP\<close> does not make it
  \<^verbatim>\<open>COMPLETED\<close> or \<^verbatim>\<open>PENDING_REVIEW\<close>. The update in \<open>complete_ride\<close> is not
  conditioned on the status, unlike the updates of \<open>accept_ride\<close>,
  \<open>confirm_pickup\<close> and \<open>cancel_ride\<close>: completing the freshly requested ride 1 of
  \<open>db_pending\<close> at its destination takes it from \<^verbatim>\<open>PENDING\<close> straight to
  \<^verbatim>\<open>COMPLETED\<close>.
\<close>

theorem complete_ride_skips_pickup:
  "map_option status (rides db_pending 1) = Some PENDING \<and>
   map_option status
     (rides (snd (complete_ride 1 (Some 22.4725) (Some 91.9845) ''2026-01-05 10:15:00''
        db_pending)) 1) = Some COMPLETED"
  by (simp add: complete_ride_def example_defs statement_defs Let_def calculateDistance_same
        calculatePoints_def)

subsection \<open>The timeout watchdog\<close>

text \<open>
  Claim C4 as stated, that a ride accepted before the watchdog fires is never set to
  \<^verbatim>\<open>TIMEOUT\<close>, fails for a ride that is accepted and then cancelled: the cancel makes
  it \<^verbatim>\<open>PENDING\<close> again, the watchdog armed at the request is still due, reads
  \<^verbatim>\<open>PENDING\<close> when it fires and sets the ride to \<^verbatim>\<open>TIMEOUT\<close>.
\<close>

theorem watchdog_after_cancel_times_out:
  "map_option status
     (rides (snd (accept_ride 1 ''RICK001'' ''2026-01-05 10:00:20'' db_pending)) 1) =
     Some ACCEPTED \<and>
   map_option status
     (rides (snd (cancel_ride 1 ''RICK001''
        (snd (accept_ride 1 ''RICK001'' ''2026-01-05 10:00:20'' db_pending)))) 1) =
     Some PENDING \<and>
   map_option status
     (rides (watchdog 1
        (snd (cancel_ride 1 ''RICK001''
           (snd (accept_ride 1 ''RICK001'' ''2026-01-05 10:00:20'' db_pending))))
        (snd (cancel_ride 1 ''RICK001''
           (snd (accept_ride 1 ''RICK001'' ''2026-01-05 10:00:20'' db_pending))))) 1) =
     Some TIMEOUT"
  by (simp add: watchdog_def accept_ride_def cancel_ride_def example_defs statement_defs Let_def)

text \<open>
  Claim C4, amended. The watchdog writes \<^verbatim>\<open>TIMEOUT\<close> only if the status it reads when
  it fires is \<^verbatim>\<open>PENDING\<close>: a ride that is absent, or whose status at that moment is
  anything else (accepted and not cancelled since), is left as it is, whatever the database
  looks like when the write would run; and a ride that is \<^verbatim>\<open>PENDING\<close> at the read and
  unchanged at the write becomes \<^verbatim>\<open>TIMEOUT\<close> with no other field changed.
\<close>

theorem watchdog_only_if_pending:
  "(\<forall>row. rides s_read rideID = Some row \<and> status row \<noteq> PENDING \<longrightarrow>
       watchdog rideID s_read s_write = s_write) \<and>
   (rides s_read rideID = None \<longrightarrow> watchdog rideID s_read s_write = s_write) \<and>
   (watchdog rideID s_read s_write \<noteq> s_write \<longrightarrow>
       (\<exists>row. rides s_read rideID = Some row \<and> status row = PENDING)) \<and>
   (\<forall>row. rides s_read rideID = Some row \<and> status row = PENDING \<and>
          rides s_write rideID = Some row \<longrightarrow>
       watchdog rideID s_read s_write =
         s_write\<lparr>rides := (rides s_write)(rideID \<mapsto> row\<lparr>status := TIMEOUT\<rparr>)\<rparr>)"
  by (auto simp add: watchdog_def update_rides_def split: option.splits)

text \<open>
  The picked-up ride 1 of \<open>db_pickup\<close> and the absent ride 2 are left alone; the pending
  ride 1 of \<open>db_pending\<close> times out.
\<close>

theorem watchdog_only_if_pending_witness:
  "watchdog 1 db_pickup db_pickup = db_pickup \<and>
   watchdog 2 db_pending db_pending = db_pending \<and>
   watchdog 1 db_pending db_pending =
     db_pending\<lparr>rides := (rides db_pending)(1 \<mapsto> ride1\<lparr>status := TIMEOUT\<rparr>)\<rparr>"
proof -
  have a: "watchdog 1 db_pickup db_pickup = db_pickup"
    using watchdog_only_if_pending [of db_pickup 1 db_pickup]
    by (simp add: example_defs)
  have b: "watchdog 2 db_pending db_pending = db_pending"
    using watchdog_only_if_pending [of db_pending 2 db_pending]
    by (simp add: example_defs)
  have c: "watchdog 1 db_pending db_pending =
     db_pending\<lparr>rides := (rides db_pending)(1 \<mapsto> ride1\<lparr>status := TIMEOUT\<rparr>)\<rparr>"
    using watchdog_only_if_pending [of db_pending 1 db_pending]
    by (simp add: example_defs)
  show ?thesis
    using a b c by simp
qed

text \<open>
  The amended statement is silent about a ride that changes between the read and the
  write. The write itself carries no condition on the status, unlike the updates of
  \<open>accept_ride\<close>, \<open>confirm_pickup\<close> and \<open>cancel_ride\<close>: an acceptance that lands
  between the read and the write of the watchdog finds the ride \<^verbatim>\<open>PENDING\<close>, as the
  watchdog did when it fired, and the write then replaces \<^verbatim>\<open>ACCEPTED\<close> by
  \<^verbatim>\<open>TIMEOUT\<close>.
\<close>

lemma watchdog_write_unconditional:
  "map_option status
     (rides (snd (accept_ride 1 ''RICK001'' ''2026-01-05 10:00:59'' db_pending)) 1) =
     Some ACCEPTED \<and>
   map_option status
     (rides (watchdog 1 db_pending
        (snd (accept_ride 1 ''RICK001'' ''2026-01-05 10:00:59'' db_pending))) 1) =
     Some TIMEOUT"
  by (simp add: watchdog_def accept_ride_def example_defs statement_defs Let_def)

subsection \<open>Completing a ride\<close>

text \<open>
  Claim C6. For every existing ride of a well-formed database whose destination is in the
  locations catalog, \<open>complete_ride\<close> with a drop coordinate computes the distance
  \<open>d\<close> from the drop to the destination, sets the ride to \<^verbatim>\<open>COMPLETED\<close> if
  \<open>d \<le> 100\<close> and to \<^verbatim>\<open>PENDING_REVIEW\<close> otherwise, stores the drop time, the drop
  coordinate, \<open>d\<close> and the points for \<open>d\<close> in the ride and changes no other field of
  it, answers with those points, the distance (written with two decimals) and the status,
  and in both branches sets the assigned rickshaw, if it is registered, to
  \<^verbatim>\<open>AVAILABLE\<close> (crediting it the points).
\<close>

theorem complete_ride_effect:
  assumes "wf_db s" and "rides s rideID = Some ride"
    and "locations s (destination ride) = Some dest"
  shows
    "let d = calculateDistance lat lng (latitude dest) (longitude dest);
         st = (if d \<le> 100 then COMPLETED else PENDING_REVIEW);
         resp = fst (complete_ride rideID (Some lat) (Some lng) now s);
         s' = snd (complete_ride rideID (Some lat) (Some lng) now s)
     in resp = Inr \<lparr>resp_points = calculatePoints d, resp_distance = toFixed2 d,
                     resp_status = st\<rparr> \<and>
        rides s' = (rides s)(rideID \<mapsto>
           ride\<lparr>status := st, dropTime := Some now, dropLat := Some lat, dropLng := Some lng,
                 dropDistance := Some d, pointsAwarded := calculatePoints d\<rparr>) \<and>
        (\<forall>k r. rickshawID ride = Some k \<and> rickshaws s k = Some r \<longrightarrow>
           rickshaws s' k =
             Some (r\<lparr>totalPoints := totalPoints r + calculatePoints d,
                      rickshaw_status := AVAILABLE\<rparr>))"
proof -
  define d where "d = calculateDistance lat lng (latitude dest) (longitude dest)"
  have z: "\<not> 0 < calculatePoints d \<Longrightarrow> calculatePoints d = 0"
    using calculatePoints_nonneg [of d] by simp
  show ?thesis
    using assms(2,3) z wf_db_ride_nonzero [OF assms(1,2)]
    by (auto simp add: complete_ride_def statement_defs Let_def d_def [symmetric]
          split: option.splits)
qed

text \<open>The picked-up ride 1 of \<open>db_pickup\<close>, dropped at its destination.\<close>

theorem complete_ride_effect_witness:
  "fst (complete_ride 1 (Some 22.4725) (Some 91.9845) ''2026-01-05 10:15:00'' db_pickup) =
     Inr \<lparr>resp_points = 10, resp_distance = 0, resp_status = COMPLETED\<rparr> \<and>
   map_option status
     (rides (snd (complete_ride 1 (Some 22.4725) (Some 91.9845) ''2026-01-05 10:15:00''
        db_pickup)) 1) = Some COMPLETED \<and>
   map_option rickshaw_status
     (rickshaws (snd (complete_ride 1 (Some 22.4725) (Some 91.9845) ''2026-01-05 10:15:00''
        db_pickup)) ''RICK001'') = Some AVAILABLE"
proof -
  have r: "rides db_pickup 1 = Some (ride1\<lparr>status := PICKUP, rickshawID := Some ''RICK001'',
                                  acceptTime := Some ''2026-01-05 10:00:20'',
                                  pickupTime := Some ''2026-01-05 10:03:00''\<rparr>)"
    by (simp add: example_defs)
  have l: "locations db_pickup (destination (ride1\<lparr>status := PICKUP,
        rickshawID := Some ''RICK001'', acceptTime := Some ''2026-01-05 10:00:20'',
        pickupTime := Some ''2026-01-05 10:03:00''\<rparr>)) =
      Some \<lparr>locationName = ''Pahartoli'', latitude = 22.4725, longitude = 91.9845\<rparr>"
    by (simp add: example_defs)
  have k: "rickshaws db_pickup ''RICK001'' = Some (rick001\<lparr>rickshaw_status := ON_RIDE\<rparr>)"
    by (simp add: example_defs)
  show ?thesis
    using complete_ride_effect [OF wf_db_examples(3) r l, of "22.4725" "91.9845" "''2026-01-05 10:15:00''"] k
    by (simp add: ride1_def calculateDistance_same calculatePoints_def toFixed2_def Let_def)
qed

subsection \<open>Cancelling a ride\<close>

text \<open>
  Claim C10. For every ride of a well-formed database in status \<^verbatim>\<open>ACCEPTED\<close> or
  \<^verbatim>\<open>PICKUP\<close> whose assigned rickshaw is the caller, \<open>cancel_ride\<close> succeeds, sets the status to \<^verbatim>\<open>PENDING\<close>
  and clears \<^verbatim>\<open>rickshawID\<close> and \<^verbatim>\<open>acceptTime\<close>; every other field of the ride, and
  every other ride, is unchanged. In particular \<^verbatim>\<open>pickupTime\<close> keeps its value, so that
  a ride cancelled from \<^verbatim>\<open>PICKUP\<close> is \<^verbatim>\<open>PENDING\<close> with a pickup time.
\<close>

theorem cancel_ride_keeps_other_fields:
  assumes "wf_db s" and "rides s rideID = Some ride"
    and "status ride = ACCEPTED \<or> status ride = PICKUP"
    and "rickshawID ride = Some rickID"
  shows
    "fst (cancel_ride rideID rickID s) = Inr () \<and>
     rides (snd (cancel_ride rideID rickID s)) =
       (rides s)(rideID \<mapsto> ride\<lparr>status := PENDING, rickshawID := None, acceptTime := None\<rparr>) \<and>
     map_option pickupTime (rides (snd (cancel_ride rideID rickID s)) rideID) =
       Some (pickupTime ride)"
  using assms wf_db_ride_nonzero [OF assms(1,2)] wf_db_rickshaw_nonempty [OF assms(1,2,4)]
  by (auto simp add: cancel_ride_def statement_defs Let_def split: option.splits)

text \<open>The picked-up ride 1 of \<open>db_pickup\<close>, cancelled by its rickshaw.\<close>

theorem cancel_ride_keeps_other_fields_witness:
  "fst (cancel_ride 1 ''RICK001'' db_pickup) = Inr () \<and>
   map_option status (rides (snd (cancel_ride 1 ''RICK001'' db_pickup)) 1) = Some PENDING \<and>
   map_option rickshawID (rides (snd (cancel_ride 1 ''RICK001'' db_pickup)) 1) = Some None \<and>
   map_option pickupTime (rides (snd (cancel_ride 1 ''RICK001'' db_pickup)) 1) =
     Some (Some ''2026-01-05 10:03:00'')"
proof -
  have r: "rides db_pickup 1 = Some (ride1\<lparr>status := PICKUP, rickshawID := Some ''RICK001'',
                                  acceptTime := Some ''2026-01-05 10:00:20'',
                                  pickupTime := Some ''2026-01-05 10:03:00''\<rparr>)"
    by (simp add: example_defs)
  show ?thesis
    using cancel_ride_keeps_other_fields [OF wf_db_examples(3) r]
    by (simp add: ride1_def)
qed

subsection \<open>Refused acceptances\<close>

text \<open>
  Claim C9 as stated, for every call of \<open>accept_ride\<close> whose ride is absent or not
  \<^verbatim>\<open>PENDING\<close>, fails where the request lacks a field: a ride identity 0 (there is no
  ride 0) or an empty rickshaw identity is answered with the error
  \<^verbatim>\<open>400 Missing fields\<close>, not with \<^verbatim>\<open>success: false\<close>.
\<close>

theorem accept_ride_missing_field_is_error:
  "rides db_pickup 0 = None \<and>
   accept_ride 0 ''RICK001'' ''2026-01-05 10:04:00'' db_pickup =
     (Inl (HttpError 400 ''Missing fields''), db_pickup) \<and>
   \<not> accept_refused 0 ''RICK001'' ''2026-01-05 10:04:00'' db_pickup \<and>
   map_option status (rides db_pickup 1) = Some PICKUP \<and>
   accept_ride 1 [] ''2026-01-05 10:04:00'' db_pickup =
     (Inl (HttpError 400 ''Missing fields''), db_pickup) \<and>
   \<not> accept_refused 1 [] ''2026-01-05 10:04:00'' db_pickup"
  by (simp add: accept_refused_def accept_ride_def example_defs)

text \<open>
  Claim C9, amended. For every call of \<open>accept_ride\<close> with a non-zero ride identity and
  a non-empty rickshaw identity, where the ride is absent or its status is not
  \<^verbatim>\<open>PENDING\<close>: the response is \<^verbatim>\<open>success: false\<close> with the message that the ride is
  already taken, not an error, and the database (the ride, if any, and the calling
  rickshaw among the rest) is exactly as before.
\<close>

theorem accept_ride_refused_unchanged:
  assumes "rideID \<noteq> 0" and "rickID \<noteq> []"
    and "rides s rideID = None \<or> (\<exists>ride. rides s rideID = Some ride \<and> status ride \<noteq> PENDING)"
  shows "accept_refused rideID rickID now s \<and>
         fst (accept_ride rideID rickID now s) =
           Inr (AcceptFailure ''Ride already taken by another puller'')"
  using assms
  by (auto simp add: accept_refused_def accept_ride_def)

text \<open>
  A second rickshaw asks for the picked-up ride 1 of \<open>db_pickup\<close>, and for a ride 7 that
  does not exist.
\<close>

theorem accept_ride_refused_unchanged_witness:
  "accept_ride 1 ''RICK002'' ''2026-01-05 10:04:00'' db_pickup =
     (Inr (AcceptFailure ''Ride already taken by another puller''), db_pickup) \<and>
   accept_ride 7 ''RICK002'' ''2026-01-05 10:04:00'' db_pickup =
     (Inr (AcceptFailure ''Ride already taken by another puller''), db_pickup)"
proof -
  have k: "''RICK002'' \<noteq> []"
    by simp
  have n1: "(1::nat) \<noteq> 0" and n7: "(7::nat) \<noteq> 0"
    by simp_all
  have r1: "rides db_pickup 1 = None \<or>
      (\<exists>ride. rides db_pickup 1 = Some ride \<and> status ride \<noteq> PENDING)"
    by (simp add: example_defs)
  have r7: "rides db_pickup 7 = None \<or>
      (\<exists>ride. rides db_pickup 7 = Some ride \<and> status ride \<noteq> PENDING)"
    by (simp add: example_defs)
  show ?thesis
    using accept_ride_refused_unchanged [OF n1 k r1, of "''2026-01-05 10:04:00''"]
      accept_ride_refused_unchanged [OF n7 k r7, of "''2026-01-05 10:04:00''"]
    by (simp add: accept_refused_def prod_eq_iff)
qed

section \<open>The points ledger\<close>

subsection \<open>Balance and log move together\<close>

lemma ledger_sum_append:
  "ledger_sum col ty (hist @ [h]) k =
     ledger_sum col ty hist k + (if h_rickshawID h = k \<and> transactionType h = ty then col h else 0)"
  by (simp add: ledger_sum_def)

lemma ledger_balance_append:
  "ledger_balance (hist @ [h]) k =
     ledger_balance hist k +
       (if h_rickshawID h = k
        then contribution (pointsEarned h) (pointsSpent h) (transactionType h) else 0)"
  by (cases "transactionType h")
     (simp_all add: ledger_balance_def sum_earned_def sum_spent_def sum_adjusted_def
        sum_expired_def ledger_sum_append contribution_def)

lemma balance_matches_update_rides:
  "balance_matches bal (snd (update_rides rideID cond f s)) k = balance_matches bal s k"
  by (simp add: balance_matches_def update_rides_frame split: option.splits)

lemma balance_matches_update_rickshaws:
  assumes "\<And>r. totalPoints (f r) = totalPoints r"
  shows "balance_matches bal (update_rickshaws key f s) k = balance_matches bal s k"
  using assms by (simp add: balance_matches_def update_rickshaws_def split: option.splits)

text \<open>
  The step every points handler takes: an update of one rickshaw that moves its
  \<^verbatim>\<open>totalPoints\<close> by some amount, then the insertion of a row for the same rickshaw
  that contributes the same amount.
\<close>

lemma balance_matches_credit:
  assumes "balance_matches ledger_balance s k"
    and "\<And>r. totalPoints (f r) = totalPoints r + contribution earned spent ty"
  shows "balance_matches ledger_balance
           (insert_history key rideID earned spent ty now (update_rickshaws key f s)) k"
  using assms
  by (auto simp add: balance_matches_def update_rickshaws_def insert_history_def
        ledger_balance_append split: option.splits)

lemma complete_ride_balanced:
  assumes "balance_matches ledger_balance s k"
  shows "balance_matches ledger_balance (snd (complete_ride rideID lat lng now s)) k"
proof (cases "fst (complete_ride rideID lat lng now s)")
  case (Inl e)
  then have "snd (complete_ride rideID lat lng now s) = s"
    by (auto simp add: complete_ride_def Let_def split: option.splits if_splits)
  with assms show ?thesis by simp
next
  case (Inr resp)
  then obtain la ln ride dest where
    args: "lat = Some la" "lng = Some ln" and rd: "rides s rideID = Some ride"
    and ld: "locations s (destination ride) = Some dest" and nz: "rideID \<noteq> 0"
    by (auto simp add: complete_ride_def Let_def split: option.splits if_splits)
  define d where "d = calculateDistance la ln (latitude dest) (longitude dest)"
  define s1 where "s1 = snd (update_rides rideID (\<lambda>r. True)
      (\<lambda>r. r\<lparr>status := (if d \<le> 100 then COMPLETED else PENDING_REVIEW), dropTime := Some now,
              dropLat := Some la, dropLng := Some ln, dropDistance := Some d,
              pointsAwarded := calculatePoints d\<rparr>) s)"
  have b1: "balance_matches ledger_balance s1 k"
    using assms by (simp add: s1_def balance_matches_update_rides)
  show ?thesis
  proof (cases "calculatePoints d > 0")
    case True
    have "snd (complete_ride rideID lat lng now s) =
        insert_history (rickshawID ride) (Some rideID) (calculatePoints d) 0 EARNED now
          (update_rickshaws (rickshawID ride)
             (\<lambda>r. r\<lparr>totalPoints := totalPoints r + calculatePoints d,
                     rickshaw_status := AVAILABLE\<rparr>) s1)"
      using True nz by (simp add: complete_ride_def args rd ld Let_def d_def s1_def)
    then show ?thesis
      using balance_matches_credit [OF b1, of _ "calculatePoints d" 0 EARNED]
      by (simp add: contribution_def)
  next
    case False
    have "snd (complete_ride rideID lat lng now s) =
        update_rickshaws (rickshawID ride) (\<lambda>r. r\<lparr>rickshaw_status := AVAILABLE\<rparr>) s1"
      using False nz by (simp add: complete_ride_def args rd ld Let_def d_def s1_def)
    then show ?thesis
      using b1 by (simp add: balance_matches_update_rickshaws)
  qed
qed

lemma redeem_points_balanced:
  assumes "balance_matches ledger_balance s k"
  shows "balance_matches ledger_balance (snd (redeem_points rickID points now s)) k"
proof (cases "fst (redeem_points rickID points now s)")
  case (Inl e)
  then have "snd (redeem_points rickID points now s) = s"
    by (auto simp add: redeem_points_def Let_def split: option.splits if_splits)
  with assms show ?thesis by simp
next
  case (Inr nb)
  then have "snd (redeem_points rickID points now s) =
      insert_history (Some rickID) None 0 points SPENT now
        (update_rickshaws (Some rickID) (\<lambda>r. r\<lparr>totalPoints := totalPoints r - points\<rparr>) s)"
    by (auto simp add: redeem_points_def Let_def split: option.splits if_splits)
  then show ?thesis
    using balance_matches_credit [OF assms, of _ 0 points SPENT]
    by (simp add: contribution_def)
qed

lemma adjust_points_balanced:
  assumes "balance_matches ledger_balance s k"
  shows "balance_matches ledger_balance (snd (adjust_points rideID newPoints now s)) k"
proof (cases "fst (adjust_points rideID newPoints now s)")
  case (Inl e)
  then have "snd (adjust_points rideID newPoints now s) = s"
    by (auto simp add: adjust_points_def Let_def split: option.splits if_splits)
  with assms show ?thesis by simp
next
  case (Inr diff)
  then obtain np ride where np: "newPoints = Some np" and rd: "rides s rideID = Some ride"
    and nz: "rideID \<noteq> 0"
    by (auto simp add: adjust_points_def Let_def split: option.splits if_splits)
  define s1 where "s1 = snd (update_rides rideID (\<lambda>r. True)
      (\<lambda>r. r\<lparr>pointsAwarded := np, status := COMPLETED\<rparr>) s)"
  have b1: "balance_matches ledger_balance s1 k"
    using assms by (simp add: s1_def balance_matches_update_rides)
  have "snd (adjust_points rideID newPoints now s) =
      insert_history (rickshawID ride) (Some rideID) (np - pointsAwarded ride) 0 ADJUSTED now
        (update_rickshaws (rickshawID ride)
           (\<lambda>r. r\<lparr>totalPoints := totalPoints r + (np - pointsAwarded ride)\<rparr>) s1)"
    using nz by (simp add: adjust_points_def np rd Let_def s1_def)
  then show ?thesis
    using balance_matches_credit [OF b1, of _ "np - pointsAwarded ride" 0 ADJUSTED]
    by (simp add: contribution_def)
qed

lemma expire_each_balanced:
  "balance_matches ledger_balance s k \<Longrightarrow>
     balance_matches ledger_balance (snd (expire_each rows now s acc)) k"
proof (induction rows arbitrary: s acc)
  case Nil
  then show ?case by simp
next
  case (Cons row rows)
  obtain k' e where row: "row = (k', e)" by (cases row)
  have "balance_matches ledger_balance
          (insert_history (Some k') None (- e) 0 EXPIRED now
             (update_rickshaws (Some k') (\<lambda>r. r\<lparr>totalPoints := totalPoints r - e\<rparr>) s)) k"
    using balance_matches_credit [OF Cons.prems, of _ "- e" 0 EXPIRED]
    by (simp add: contribution_def)
  then show ?case
    by (simp add: row Cons.IH)
qed

lemma expire_points_balanced:
  assumes "balance_matches ledger_balance s k"
  shows "balance_matches ledger_balance (snd (expire_points expiryDate now s)) k"
  using assms expire_each_balanced [OF assms]
  by (simp add: expire_points_def Let_def split: prod.splits) (metis snd_conv)

lemma apply_operation_balanced:
  "balance_matches ledger_balance s k \<Longrightarrow>
     balance_matches ledger_balance (apply_operation op s) k"
  by (cases op)
     (simp_all add: complete_ride_balanced redeem_points_balanced adjust_points_balanced
        expire_points_balanced)

text \<open>
  Claim C3 as stated, with the expired amounts subtracted as they are recorded, fails
  after an expiry: in \<open>db_earned\<close> the rickshaw holds 10 points earned by one row; the
  expiry debits the 10 points and records \<open>- 10\<close> in the \<^verbatim>\<open>EXPIRED\<close> row, so the
  cached balance is 0 while \<open>sum(earned) - sum(expired)\<close> is \<open>10 - (- 10)\<close>.
\<close>

theorem spec_balance_fails_after_expiry:
  "balance_matches spec_balance db_earned ''RICK001'' \<and>
   \<not> balance_matches spec_balance
       (run [ExpireOlderThan ''2026-08-01T00:00:00.000Z'' ''2026-08-01 00:00:00''] db_earned)
       ''RICK001''"
  by (simp add: run_def balance_matches_def spec_balance_def sum_earned_def sum_spent_def
        sum_adjusted_def sum_expired_def ledger_sum_def
        expire_points_def expired_rows_def example_defs statement_defs Let_def)

text \<open>
  Claim C3, amended. For every rickshaw whose cached \<^verbatim>\<open>totalPoints\<close> equals
  \<open>sum(earned) - sum(spent) + sum(adjusted) + sum(expired)\<close> over the amounts recorded
  in its rows of the log (an \<^verbatim>\<open>EXPIRED\<close> row records the negated expired sum), the
  same holds after every sequence of completions, redemptions, adjustments and expiries.
\<close>

theorem balance_invariant:
  "balance_matches ledger_balance s k \<Longrightarrow> balance_matches ledger_balance (run ops s) k"
  unfolding run_def
  by (induction ops arbitrary: s) (simp_all add: apply_operation_balanced)

text \<open>
  From \<open>db_earned\<close> (10 points): a redemption of 4, an adjustment of ride 1 from 10 to
  12, an expiry of the 10 earned points, and a second completion of ride 1 worth 10 leave
  8 points.
\<close>

theorem balance_invariant_witness:
  "balance_matches ledger_balance db_earned ''RICK001'' \<and>
   balance_matches ledger_balance
     (run [Redeem ''RICK001'' 4 ''2026-08-01 00:00:00'',
           AdjustAward 1 12 ''2026-08-02 00:00:00'',
           ExpireOlderThan ''2026-08-01T00:00:00.000Z'' ''2026-08-03 00:00:00'',
           CompleteRide 1 22.4725 91.9845 ''2026-08-04 00:00:00''] db_earned) ''RICK001'' \<and>
   map_option totalPoints (rickshaws
     (run [Redeem ''RICK001'' 4 ''2026-08-01 00:00:00'',
           AdjustAward 1 12 ''2026-08-02 00:00:00'',
           ExpireOlderThan ''2026-08-01T00:00:00.000Z'' ''2026-08-03 00:00:00'',
           CompleteRide 1 22.4725 91.9845 ''2026-08-04 00:00:00''] db_earned) ''RICK001'') =
     Some 8"
proof -
  have h: "balance_matches ledger_balance db_earned ''RICK001''"
    by (simp add: balance_matches_def ledger_balance_def sum_earned_def sum_spent_def
          sum_adjusted_def sum_expired_def ledger_sum_def example_defs)
  have v: "map_option totalPoints (rickshaws
     (run [Redeem ''RICK001'' 4 ''2026-08-01 00:00:00'',
           AdjustAward 1 12 ''2026-08-02 00:00:00'',
           ExpireOlderThan ''2026-08-01T00:00:00.000Z'' ''2026-08-03 00:00:00'',
           CompleteRide 1 22.4725 91.9845 ''2026-08-04 00:00:00''] db_earned) ''RICK001'') =
     Some 8"
    by (simp add: run_def redeem_points_def adjust_points_def expire_points_def
          expired_rows_def complete_ride_def example_defs statement_defs Let_def
          calculateDistance_same calculatePoints_def)
  show ?thesis
    using h balance_invariant [OF h] v by simp
qed

subsection \<open>Expiry selects the same rows again\<close>

text \<open>
  The \<^verbatim>\<open>NOT EXISTS\<close> subquery looks for a row with the \<^verbatim>\<open>historyID\<close> of the
  \<^verbatim>\<open>EARNED\<close> row at hand and type \<^verbatim>\<open>EXPIRED\<close>. \<^verbatim>\<open>historyID\<close> is the primary key, so
  the only row with that identity is the \<^verbatim>\<open>EARNED\<close> row itself: the subquery finds
  nothing and the selection is the one without it.
\<close>

lemma not_exists_never_excludes:
  assumes "distinct (map historyID hist)" and "h \<in> set hist" and "transactionType h = EARNED"
  shows "\<not> list_ex (\<lambda>h2. historyID h2 = historyID h \<and> transactionType h2 = EXPIRED) hist"
proof
  assume "list_ex (\<lambda>h2. historyID h2 = historyID h \<and> transactionType h2 = EXPIRED) hist"
  then obtain h2 where h2: "h2 \<in> set hist" "historyID h2 = historyID h"
      "transactionType h2 = EXPIRED"
    by (auto simp add: list_ex_iff)
  from assms(1) have "inj_on historyID (set hist)"
    by (simp add: distinct_map)
  with h2 assms(2) have "h2 = h"
    by (auto dest: inj_onD)
  with h2 assms(3) show False
    by simp
qed

lemma expired_rows_without_subquery:
  assumes "distinct (map historyID hist)"
  shows "expired_rows hist expiryDate =
     (let sel = filter (\<lambda>h. transactionType h = EARNED \<and> transactionDate h < expiryDate) hist
      in map (\<lambda>k. (k, sum_list (map pointsEarned (filter (\<lambda>h. h_rickshawID h = k) sel))))
           (remdups (map h_rickshawID sel)))"
proof -
  have "filter (\<lambda>h. transactionType h = EARNED \<and> transactionDate h < expiryDate \<and>
                    \<not> list_ex (\<lambda>h2. historyID h2 = historyID h \<and>
                                     transactionType h2 = EXPIRED) hist) hist =
        filter (\<lambda>h. transactionType h = EARNED \<and> transactionDate h < expiryDate) hist"
    using not_exists_never_excludes [OF assms]
    by (intro filter_cong) auto
  then show ?thesis
    by (simp add: expired_rows_def)
qed

text \<open>
  Claim C7 says that a second expiry with the same threshold debits nothing for an
  \<^verbatim>\<open>EARNED\<close> row that a first expiry has covered. In \<open>db_earned\<close> the rickshaw holds
  10 points from one \<^verbatim>\<open>EARNED\<close> row. The first expiry selects that row and leaves 0
  points; the second expiry selects the same row again and leaves \<open>- 10\<close>.
\<close>

theorem expire_points_twice_debits_twice:
  "expired_rows (points_history db_earned) ''2026-08-01T00:00:00.000Z'' = [(''RICK001'', 10)] \<and>
   map_option totalPoints
     (rickshaws (snd (expire_points ''2026-08-01T00:00:00.000Z'' ''2026-08-01 00:00:00''
        db_earned)) ''RICK001'') = Some 0 \<and>
   expired_rows
     (points_history (snd (expire_points ''2026-08-01T00:00:00.000Z'' ''2026-08-01 00:00:00''
        db_earned))) ''2026-08-01T00:00:00.000Z'' = [(''RICK001'', 10)] \<and>
   map_option totalPoints
     (rickshaws (snd (expire_points ''2026-08-01T00:00:00.000Z'' ''2026-08-01 00:05:00''
        (snd (expire_points ''2026-08-01T00:00:00.000Z'' ''2026-08-01 00:00:00''
           db_earned)))) ''RICK001'') = Some (- 10)"
  by (simp add: expire_points_def expired_rows_def example_defs statement_defs Let_def)

subsection \<open>Redemption\<close>

text \<open>
  Claim C8 as stated, for every amount, fails at the amount 0: the handler takes it for a
  missing field and answers \<^verbatim>\<open>400 Missing fields\<close>, where the claim has the balance
  debited by 0 and a \<^verbatim>\<open>SPENT\<close> row appended.
\<close>

theorem redeem_points_zero_amount:
  "rickshaws db_earned ''RICK001'' = Some (rick001\<lparr>totalPoints := 10\<rparr>) \<and>
   redeem_points ''RICK001'' 0 ''2026-08-03 00:00:00'' db_earned =
     (Inl (HttpError 400 ''Missing fields''), db_earned) \<and>
   \<not> redeem_as_specified ''RICK001'' 0 ''2026-08-03 00:00:00'' db_earned
       (rick001\<lparr>totalPoints := 10\<rparr>)"
  by (simp add: redeem_as_specified_def redeem_points_def example_defs Let_def)

text \<open>
  Claim C8, amended. For every registered rickshaw and every amount other than 0,
  \<open>redeem_points\<close> fails with \<^verbatim>\<open>Insufficient points\<close> and leaves the database
  unchanged when the balance is strictly less than the amount; otherwise it debits exactly
  the amount, appends one \<^verbatim>\<open>SPENT\<close> row for the amount, changes nothing else, and
  returns the old balance minus the amount.
\<close>

theorem redeem_points_nonzero_amount:
  assumes "rickID \<noteq> []" and "amount \<noteq> 0" and "rickshaws s rickID = Some r"
  shows "redeem_as_specified rickID amount now s r"
proof (cases "totalPoints r < amount")
  case True
  with assms show ?thesis
    by (simp add: redeem_as_specified_def redeem_points_def Let_def)
next
  case False
  define row where "row =
    \<lparr>historyID = Suc (fold max (map historyID (points_history s)) 0),
      h_rickshawID = rickID, h_rideID = None, pointsEarned = 0, pointsSpent = amount,
      transactionType = SPENT, transactionDate = now\<rparr>"
  have run: "redeem_points rickID amount now s =
      (Inr (totalPoints r - amount),
       s\<lparr>rickshaws := (rickshaws s)(rickID \<mapsto> r\<lparr>totalPoints := totalPoints r - amount\<rparr>),
         points_history := points_history s @ [row]\<rparr>)"
    using assms False
    by (simp add: redeem_points_def statement_defs Let_def row_def)
  have "h_rickshawID row = rickID \<and> transactionType row = SPENT \<and>
        pointsSpent row = amount \<and> pointsEarned row = 0"
    by (simp add: row_def)
  with False run show ?thesis
    unfolding redeem_as_specified_def Let_def by auto
qed

text \<open>
  With 10 points, a redemption of 25 is refused and changes nothing; a redemption of 4
  returns 6, leaves 6 and appends one row.
\<close>

theorem redeem_points_nonzero_amount_witness:
  "redeem_points ''RICK001'' 25 ''2026-08-03 00:00:00'' db_earned =
     (Inl (HttpError 400 ''Insufficient points''), db_earned) \<and>
   fst (redeem_points ''RICK001'' 4 ''2026-08-03 00:00:00'' db_earned) = Inr 6 \<and>
   map_option totalPoints
     (rickshaws (snd (redeem_points ''RICK001'' 4 ''2026-08-03 00:00:00'' db_earned))
        ''RICK001'') = Some 6 \<and>
   length (points_history (snd (redeem_points ''RICK001'' 4 ''2026-08-03 00:00:00'' db_earned))) =
     Suc (length (points_history db_earned))"
proof -
  have k: "''RICK001'' \<noteq> []"
    by simp
  have r: "rickshaws db_earned ''RICK001'' = Some (rick001\<lparr>totalPoints := 10\<rparr>)"
    by (simp add: example_defs)
  have a: "(25::int) \<noteq> 0" and b: "(4::int) \<noteq> 0"
    by simp_all
  have t: "totalPoints (rick001\<lparr>totalPoints := 10\<rparr>) = 10"
    by simp
  from redeem_points_nonzero_amount [OF k a r, of "''2026-08-03 00:00:00''"]
  have low: "redeem_points ''RICK001'' 25 ''2026-08-03 00:00:00'' db_earned =
     (Inl (HttpError 400 ''Insufficient points''), db_earned)"
    by (simp add: redeem_as_specified_def Let_def t prod_eq_iff)
  from redeem_points_nonzero_amount [OF k b r, of "''2026-08-03 00:00:00''"]
  have ok: "fst (redeem_points ''RICK001'' 4 ''2026-08-03 00:00:00'' db_earned) = Inr 6 \<and>
   map_option totalPoints
     (rickshaws (snd (redeem_points ''RICK001'' 4 ''2026-08-03 00:00:00'' db_earned))
        ''RICK001'') = Some 6 \<and>
   length (points_history (snd (redeem_points ''RICK001'' 4 ''2026-08-03 00:00:00'' db_earned))) =
     Suc (length (points_history db_earned))"
    by (auto simp add: redeem_as_specified_def Let_def t)
  show ?thesis
    using low ok by simp
qed

end
